theory Spec2Isabelle
  imports Complex_Main
begin

section \<open>Numbers and errors\<close>

text \<open>
  The filterbank code computes in C++ \<open>float\<close> and \<open>double\<close>.  This development embeds it over
  the real numbers: every arithmetic operation is the exact one, a decimal literal stands for
  its exact decimal value, and no rounding, overflow to infinity or NaN is modelled.  What is
  proved is therefore the algorithm the code implements (its control flow, its data flow and
  its exact arithmetic), not its rounding behaviour.

  \<open>kNumRotators\<close> is declared in \<open>fourier_bank.h\<close>, which is not part of the sources at hand; it
  is a parameter \<open>N\<close> of every definition that uses it.  Channel indices and sizes are natural
  numbers; they stay far below the range of the C++ \<open>int\<close> that holds them.

  An abort of the process and an access outside an array are values of the type \<open>error\<close>.
\<close>

datatype error = Abort | OutOfBounds

section \<open>Energy to loudness: \<open>SimpleDb\<close>\<close>

definition full_scale_sine_db :: real where
  "full_scale_sine_db = 75.27901963526045"

definition exp_full_scale_sine_db :: real where
  "exp_full_scale_sine_db = exp full_scale_sine_db"

definition epsilon :: real where
  "epsilon = 1.0033294789821357 / 10 ^ 9 * exp_full_scale_sine_db"

definition kMul :: real where
  "kMul = 10.0 / ln 10"

definition SimpleDb :: "real \<Rightarrow> real" where
  "SimpleDb energy = kMul * ln (energy + epsilon)"

section \<open>Lemmas about \<open>SimpleDb\<close>\<close>

lemma epsilon_pos: "0 < epsilon"
  by (simp add: epsilon_def exp_full_scale_sine_db_def)

lemma kMul_pos: "0 < kMul"
  by (simp add: kMul_def)

text \<open>
  C2.  For every energy \<open>e \<ge> 0\<close>, \<open>SimpleDb e\<close> is \<open>k * ln (e + \<epsilon>)\<close> with \<open>k = 10 / ln 10\<close>, that
  is \<open>10 * log\<^sub>1\<^sub>0 (e + \<epsilon>)\<close>: the multiplier folds the change of base and the decibel factor 10.
  The floor \<open>\<epsilon>\<close> is a fixed positive multiple of \<open>exp 75.27901963526045\<close>, so the result is
  bounded below by the finite value \<open>SimpleDb 0 = k * ln \<epsilon>\<close>, also at \<open>e = 0\<close>.
\<close>

theorem SimpleDb_spec:
  assumes "0 \<le> e"
  shows "SimpleDb e = (10 / ln 10) * ln (e + epsilon)
       \<and> SimpleDb e = 10 * log 10 (e + epsilon)
       \<and> epsilon = 1.0033294789821357 / 10 ^ 9 * exp 75.27901963526045
       \<and> 0 < epsilon
       \<and> SimpleDb 0 = (10 / ln 10) * ln epsilon
       \<and> SimpleDb 0 \<le> SimpleDb e"
proof -
  have pos: "0 < e + epsilon" using assms epsilon_pos by linarith
  have mono: "ln epsilon \<le> ln (e + epsilon)"
    using assms epsilon_pos by (intro ln_mono) simp_all
  have "SimpleDb 0 \<le> SimpleDb e"
    using mono kMul_pos by (simp add: SimpleDb_def)
  moreover have "SimpleDb e = 10 * log 10 (e + epsilon)"
    by (simp add: SimpleDb_def kMul_def log_def)
  moreover have "epsilon = 1.0033294789821357 / 10 ^ 9 * exp 75.27901963526045"
    by (simp add: epsilon_def exp_full_scale_sine_db_def full_scale_sine_db_def)
  ultimately show ?thesis
    using epsilon_pos by (simp add: SimpleDb_def kMul_def)
qed

theorem SimpleDb_spec_witness:
  "(0::real) \<le> 0 \<and> SimpleDb 0 = 10 * log 10 (0 + epsilon) \<and> SimpleDb 0 \<le> SimpleDb 0"
  using SimpleDb_spec [of 0] by simp

end
